theory Spec2Isabelle
  imports Complex_Main
begin

section \<open>Output multiplexing and worker control of \<open>qcodes/utils/multiprocessing.py\<close>\<close>

text \<open>
  A shallow embedding of the classes \<open>StreamQueue\<close>, \<open>_SQWriter\<close> and
  \<open>ServerManager\<close>. Every method takes the objects it mutates as an explicit state and
  returns the pair of its outcome and the new state; an exception is the outcome
  \<open>Inl e\<close>, a normal return is \<open>Inr v\<close>. Wall-clock readings are arguments of the
  methods that take them. A blocking primitive of the \<open>multiprocessing\<close> library that
  may never return gives \<open>None\<close>.
\<close>

subsection \<open>Python values the module handles\<close>

datatype error =
    RuntimeError string
  | ValueError string
  | OSError string
  | IndexError string
  | TypeError string
  | UnboundLocalError string
  | Empty

text \<open>\<open>except ValueError\<close> catches exactly the errors of that class.\<close>

fun is_ValueError :: "error \<Rightarrow> bool" where
  "is_ValueError (ValueError _) = True"
| "is_ValueError _ = False"

definition newline :: char where
  "newline = CHR 0x0A"

subsection \<open>A process-shared queue (\<open>multiprocessing.Queue\<close>)\<close>

text \<open>
  The queue is unbounded and first-in first-out. A process that has closed its handle
  can no longer use it: \<open>put\<close> raises \<open>ValueError\<close>, and \<open>empty\<close> raises \<open>OSError\<close>
  on the closed pipe.
\<close>

record 'a mp_queue =
  items :: "'a list"
  closed :: bool

definition q_put :: "'a \<Rightarrow> 'a mp_queue \<Rightarrow> error + 'a mp_queue" where
  "q_put x q =
     (if closed q then Inl (ValueError ''Queue is closed'')
      else Inr (q\<lparr>items := items q @ [x]\<rparr>))"

definition q_empty :: "'a mp_queue \<Rightarrow> error + bool" where
  "q_empty q =
     (if closed q then Inl (OSError ''handle is closed'')
      else Inr (items q = []))"

subsection \<open>The interpreter state of one process\<close>

text \<open>
  A stream handle is either a file object of the interpreter or an \<open>_SQWriter\<close>, which
  is identified by its \<open>stream_name\<close>: its \<open>queue\<close> and \<open>last_read_ts\<close> are those of the
  one \<open>StreamQueue\<close> of the process (the singleton of \<open>get_stream_queue\<close>), which both
  objects share by reference.
\<close>

datatype handle = FileHandle string | SQWriter string

type_synonym message = "string \<times> string \<times> string"

record stream_queue =
  queue :: "message mp_queue"
  last_read_ts :: rat
  last_stream :: "string option"
  on_new_line :: bool
  initial_streams :: "(handle \<times> handle) option"

text \<open>
  The terminal is the operating-system stream behind \<open>sys.__stdout__\<close>: the text it has
  received, and the error a write to it raises, if it is broken.
\<close>

record terminal =
  term_text :: string
  term_fault :: "error option"

record interp =
  sq :: stream_queue
  sys_stdout :: handle
  sys_stderr :: handle
  sys_dunder_stdout :: handle
  sys_dunder_stderr :: handle
  dunder_terminal :: terminal

type_synonym ('a, 's) outcome = "(error + 'a) \<times> 's"

subsection \<open>\<open>StreamQueue.connect\<close> and \<open>StreamQueue.disconnect\<close>\<close>

definition StreamQueue_connect :: "string \<Rightarrow> interp \<Rightarrow> (unit, interp) outcome" where
  "StreamQueue_connect process_name w =
     (if initial_streams (sq w) \<noteq> None
      then (Inl (RuntimeError ''StreamQueue is already connected''), w)
      else
        (Inr (),
         w\<lparr>sq := (sq w)\<lparr>initial_streams := Some (sys_stdout w, sys_stderr w)\<rparr>,
           sys_stdout := SQWriter process_name,
           sys_stderr := SQWriter (process_name @ '' ERR'')\<rparr>))"

definition StreamQueue_disconnect :: "interp \<Rightarrow> (unit, interp) outcome" where
  "StreamQueue_disconnect w =
     (case initial_streams (sq w) of
        None \<Rightarrow> (Inl (RuntimeError ''StreamQueue is not connected''), w)
      | Some (out, err) \<Rightarrow>
          (Inr (),
           w\<lparr>sys_stdout := out, sys_stderr := err,
             sq := (sq w)\<lparr>initial_streams := None\<rparr>\<rparr>))"

subsection \<open>\<open>StreamQueue.get\<close>\<close>

text \<open>
  \<open>str.replace(old, new)\<close> replaces the occurrences of \<open>old\<close> from left to right,
  without overlap. With an empty \<open>old\<close>, Python puts \<open>new\<close> before every character
  and at the end.
\<close>

function str_replace :: "string \<Rightarrow> string \<Rightarrow> string \<Rightarrow> string" where
  "str_replace old new s =
     (if old = [] then new @ concat (map (\<lambda>c. c # new) s)
      else if s = [] then []
      else if take (length old) s = old
        then new @ str_replace old new (drop (length old) s)
      else hd s # str_replace old new (tl s))"
  by pat_completeness auto
termination
  by (relation "measure (\<lambda>(old, new, s). length s)") auto

declare str_replace.simps [simp del]

definition line_head_of :: "string \<Rightarrow> string \<Rightarrow> string" where
  "line_head_of timestr stream_name = ''['' @ timestr @ '' '' @ stream_name @ ''] ''"

text \<open>
  The body of the loop, after \<open>self.queue.get()\<close> has taken the message: \<open>out\<close> is the
  local variable, the \<open>stream_queue\<close> holds \<open>_on_new_line\<close> and \<open>_last_stream\<close>.
  \<open>msg[-1]\<close> raises \<open>IndexError\<close> on the empty string, before either attribute is
  assigned.
\<close>

definition get_body :: "message \<Rightarrow> string \<Rightarrow> stream_queue \<Rightarrow> (string, stream_queue) outcome" where
  "get_body m out s =
     (case m of (timestr, stream_name, msg) \<Rightarrow>
        let line_head = line_head_of timestr stream_name;
            out1 = (if on_new_line s then out @ line_head
                    else if Some stream_name \<noteq> last_stream s
                      then out @ [newline] @ line_head
                    else out)
        in if msg = [] then (Inl (IndexError ''string index out of range''), s)
           else
             (Inr (out1 @ str_replace [newline] ([newline] @ line_head) (butlast msg)
                     @ [last msg]),
              s\<lparr>on_new_line := (last msg = newline),
                last_stream := Some stream_name\<rparr>))"

text \<open>
  The \<open>while not self.queue.empty()\<close> loop. No other process writes to the queue while
  it runs, so that \<open>get()\<close> returns the head at once.
\<close>

function get_loop :: "string \<Rightarrow> stream_queue \<Rightarrow> (string, stream_queue) outcome" where
  "get_loop out s =
     (case q_empty (queue s) of
        Inl e \<Rightarrow> (Inl e, s)
      | Inr True \<Rightarrow> (Inr out, s)
      | Inr False \<Rightarrow>
          (case get_body (hd (items (queue s))) out
                  (s\<lparr>queue := (queue s)\<lparr>items := tl (items (queue s))\<rparr>\<rparr>) of
             (Inl e, s') \<Rightarrow> (Inl e, s')
           | (Inr out', s') \<Rightarrow> get_loop out' s'))"
  by pat_completeness auto
termination
  by (relation "measure (\<lambda>(out, s). length (items (queue s)))")
     (auto simp: q_empty_def get_body_def Let_def split: if_splits prod.splits)

declare get_loop.simps [simp del]

definition StreamQueue_get :: "rat \<Rightarrow> stream_queue \<Rightarrow> (string, stream_queue) outcome" where
  "StreamQueue_get now s =
     (case get_loop [] s of
        (Inl e, s') \<Rightarrow> (Inl e, s')
      | (Inr out, s') \<Rightarrow> (Inr out, s'\<lparr>last_read_ts := now\<rparr>))"

subsection \<open>\<open>_SQWriter.write\<close>\<close>

text \<open>
  \<open>datetime.now()\<close> is a reading of the wall clock; the fields of a \<open>datetime\<close> are in
  range by its constructor (\<open>hour < 24\<close>, \<open>minute < 60\<close>, \<open>second < 60\<close>,
  \<open>microsecond < 1000000\<close>). \<open>strftime\<close> writes \<open>%H\<close>, \<open>%M\<close> and \<open>%S\<close> as two decimal
  digits and \<open>%f\<close> as six.
\<close>

record datetime =
  hour :: nat
  minute :: nat
  second :: nat
  microsecond :: nat

definition digit :: "nat \<Rightarrow> char" where
  "digit n = ''0123456789'' ! (n mod 10)"

definition zero_padded :: "nat \<Rightarrow> nat \<Rightarrow> string" where
  "zero_padded width n = map (\<lambda>i. digit (n div 10 ^ i)) (rev [0..<width])"

definition strftime_HMSf :: "datetime \<Rightarrow> string" where
  "strftime_HMSf dt =
     zero_padded 2 (hour dt) @ '':'' @ zero_padded 2 (minute dt) @ '':''
       @ zero_padded 2 (second dt) @ ''.'' @ zero_padded 6 (microsecond dt)"

text \<open>The slice \<open>s[:-n]\<close>, which is empty when \<open>s\<close> has at most \<open>n\<close> characters.\<close>

definition slice_to_minus :: "nat \<Rightarrow> 'a list \<Rightarrow> 'a list" where
  "slice_to_minus n s = take (length s - n) s"

definition MIN_READ_TIME :: rat where
  "MIN_READ_TIME = 3"

text \<open>\<open>print(text, file=sys.__stdout__)\<close> writes the text and a newline.\<close>

definition print_terminal :: "string \<Rightarrow> terminal \<Rightarrow> error + terminal" where
  "print_terminal text t =
     (case term_fault t of
        Some e \<Rightarrow> Inl e
      | None \<Rightarrow> Inr (t\<lparr>term_text := term_text t @ text @ [newline]\<rparr>))"

text \<open>
  The line for the terminal: \<open>'[{} {}] {}'.format(*msgtuple)\<close>, without its last
  character if that is a newline. \<open>termstr\<close> begins with a bracket, so \<open>termstr[-1]\<close>
  is defined.
\<close>

definition termstr_of :: "message \<Rightarrow> string" where
  "termstr_of msgtuple =
     (let termstr = ''['' @ fst msgtuple @ '' '' @ fst (snd msgtuple) @ ''] ''
                      @ snd (snd msgtuple)
      in if last termstr = newline then slice_to_minus 1 termstr else termstr)"

text \<open>
  The block under \<open>try\<close>. \<open>now_dt\<close> is what \<open>datetime.now()\<close> returns and \<open>now_ts\<close>
  what \<open>time.time()\<close> returns. \<open>now_ts\<close> and the shared \<open>last_read_ts\<close> are doubles,
  each the rational it denotes, and \<open>queue_age\<close> is their difference in double
  arithmetic: the exact difference rounded to a double. The rounding is the parameter
  \<open>to_double\<close>. The comparison of \<open>queue_age\<close> with the integer 3 is exact.
\<close>

definition SQWriter_write_try ::
    "(rat \<Rightarrow> rat) \<Rightarrow> string \<Rightarrow> datetime \<Rightarrow> rat \<Rightarrow> string \<Rightarrow> interp
       \<Rightarrow> (unit, interp) outcome" where
  "SQWriter_write_try to_double stream_name now_dt now_ts msg w =
     (if msg \<noteq> [] then
        let msgtuple = (slice_to_minus 3 (strftime_HMSf now_dt), stream_name, msg) in
        case q_put msgtuple (queue (sq w)) of
          Inl e \<Rightarrow> (Inl e, w)
        | Inr q' \<Rightarrow>
            let w1 = w\<lparr>sq := (sq w)\<lparr>queue := q'\<rparr>\<rparr>;
                queue_age = to_double (now_ts - last_read_ts (sq w1))
            in if queue_age > MIN_READ_TIME \<and> msg \<noteq> [newline] then
                 case print_terminal (termstr_of msgtuple) (dunder_terminal w1) of
                   Inl e \<Rightarrow> if is_ValueError e then (Inr (), w1) else (Inl e, w1)
                 | Inr t' \<Rightarrow> (Inr (), w1\<lparr>dunder_terminal := t'\<rparr>)
               else (Inr (), w1)
      else (Inr (), w))"

text \<open>The bare \<open>except\<close>: the regular streams are put back and the error is raised again.\<close>

definition SQWriter_write ::
    "(rat \<Rightarrow> rat) \<Rightarrow> string \<Rightarrow> datetime \<Rightarrow> rat \<Rightarrow> string \<Rightarrow> interp
       \<Rightarrow> (unit, interp) outcome" where
  "SQWriter_write to_double stream_name now_dt now_ts msg w =
     (case SQWriter_write_try to_double stream_name now_dt now_ts msg w of
        (Inl e, w') \<Rightarrow>
          (Inl e, w'\<lparr>sys_stdout := sys_dunder_stdout w',
                     sys_stderr := sys_dunder_stderr w'\<rparr>)
      | (Inr u, w') \<Rightarrow> (Inr u, w'))"

subsection \<open>\<open>ServerManager\<close>: its state and the worker on the other side\<close>

datatype pyobj = PyNone | PyStr string | PyInt int

type_synonym query = "pyobj list"

text \<open>The \<open>timeout\<close> argument: \<open>None\<close> or a number of seconds, with Python's truth value.\<close>

datatype timeout = NoTimeout | Seconds rat

fun truthy :: "timeout \<Rightarrow> bool" where
  "truthy NoTimeout = False"
| "truthy (Seconds x) = (x \<noteq> 0)"

definition py_or :: "timeout \<Rightarrow> timeout \<Rightarrow> timeout" where
  "py_or a b = (if truthy a then a else b)"

text \<open>
  The three queues are created by the manager and never closed by it; they are the
  unbounded first-in first-out channels that the worker process shares.
\<close>

record channels =
  query_queue :: "query list"
  response_queue :: "pyobj list"
  error_queue :: "string list"

record qcodes_process =
  proc_name :: string
  proc_target :: string
  alive :: bool

record manager =
  name :: string
  chans :: channels
  server_class :: string
  server_extras :: "pyobj list"
  query_lock :: nat
  query_timeout :: timeout
  server :: qcodes_process
  stderr_text :: string

text \<open>
  The worker runs in another process. What it does while the controller is blocked is a
  parameter: \<open>wait_response t c\<close> is the content of the channels when a wait of \<open>t\<close> on
  the response queue ends, and \<open>wait_exit c\<close> their content when the worker process
  exits; each is \<open>None\<close> when that never happens.
\<close>

record worker_env =
  wait_response :: "timeout \<Rightarrow> channels \<Rightarrow> channels option"
  wait_exit :: "channels \<Rightarrow> channels option"

text \<open>
  \<open>self._response_queue.get(timeout=timeout)\<close>: the head of the queue if there is one
  when the wait ends, \<open>Empty\<close> otherwise; without a timeout the wait only ends with a
  response.
\<close>

definition response_get ::
    "worker_env \<Rightarrow> timeout \<Rightarrow> channels \<Rightarrow> (pyobj, channels) outcome option" where
  "response_get env t c =
     (case wait_response env t c of
        None \<Rightarrow> None
      | Some c' \<Rightarrow>
          if response_queue c' \<noteq> []
          then Some (Inr (hd (response_queue c')),
                     c'\<lparr>response_queue := tl (response_queue c')\<rparr>)
          else if t = NoTimeout then None
          else Some (Inl Empty, c'))"

subsection \<open>\<open>ServerManager.write\<close> and \<open>ServerManager._check_for_errors\<close>\<close>

definition ServerManager_check_for_errors :: "manager \<Rightarrow> (unit, manager) outcome" where
  "ServerManager_check_for_errors m =
     (if error_queue (chans m) \<noteq> [] then
        let errstr = hd (error_queue (chans m));
            m1 = m\<lparr>chans := (chans m)\<lparr>error_queue := tl (error_queue (chans m))\<rparr>\<rparr>;
            errhead = ''*** error on '' @ name m1 @ '' ***''
        in (Inl (RuntimeError errhead),
            m1\<lparr>stderr_text := stderr_text m1 @ errhead @ [newline, newline] @ errstr
                                @ [newline]\<rparr>)
      else (Inr (), m))"

definition query_put :: "query \<Rightarrow> manager \<Rightarrow> manager" where
  "query_put q m = m\<lparr>chans := (chans m)\<lparr>query_queue := query_queue (chans m) @ [q]\<rparr>\<rparr>"

definition ServerManager_write :: "query \<Rightarrow> manager \<Rightarrow> (unit, manager) outcome" where
  "ServerManager_write q m = ServerManager_check_for_errors (query_put q m)"

subsection \<open>\<open>ServerManager.ask\<close>\<close>

text \<open>
  The block under \<open>with self.query_lock\<close>. \<open>res\<close> is bound only when the \<open>get\<close>
  returned; \<open>return res\<close> with \<open>res\<close> unbound raises \<open>UnboundLocalError\<close>.
\<close>

definition ask_locked ::
    "worker_env \<Rightarrow> query \<Rightarrow> timeout \<Rightarrow> manager \<Rightarrow> (pyobj, manager) outcome option" where
  "ask_locked env q t m =
     (let m1 = query_put q m in
      case response_get env t (chans m1) of
        None \<Rightarrow> None
      | Some (r, c') \<Rightarrow>
          let m2 = m1\<lparr>chans := c'\<rparr> in
          Some (case r of
             Inl e \<Rightarrow>
               if error_queue (chans m2) = [] then (Inl e, m2)
               else (case ServerManager_check_for_errors m2 of
                       (Inl e', m3) \<Rightarrow> (Inl e', m3)
                     | (Inr u, m3) \<Rightarrow>
                         (Inl (UnboundLocalError ''res referenced before assignment''), m3))
           | Inr res \<Rightarrow>
               (case ServerManager_check_for_errors m2 of
                  (Inl e', m3) \<Rightarrow> (Inl e', m3)
                | (Inr u, m3) \<Rightarrow> (Inr res, m3))))"

text \<open>
  The lock is reentrant: entering the \<open>with\<close> block raises its depth, and leaving the
  block, by a return or by an exception, lowers it again.
\<close>

definition lock_acquire :: "manager \<Rightarrow> manager" where
  "lock_acquire m = m\<lparr>query_lock := Suc (query_lock m)\<rparr>"

definition lock_release :: "manager \<Rightarrow> manager" where
  "lock_release m = m\<lparr>query_lock := query_lock m - 1\<rparr>"

definition ServerManager_ask ::
    "worker_env \<Rightarrow> query \<Rightarrow> timeout \<Rightarrow> manager \<Rightarrow> (pyobj, manager) outcome option" where
  "ServerManager_ask env q timeout m =
     (let timeout' = py_or timeout (query_timeout m) in
      case ask_locked env q timeout' (lock_acquire m) of
        None \<Rightarrow> None
      | Some (r, m') \<Rightarrow> Some (r, lock_release m'))"

subsection \<open>\<open>ServerManager.halt\<close>, \<open>_start_server\<close> and \<open>restart\<close>\<close>

text \<open>\<open>self._server.join()\<close> returns at once when the process has exited.\<close>

definition process_join :: "worker_env \<Rightarrow> manager \<Rightarrow> manager option" where
  "process_join env m =
     (if alive (server m) then
        (case wait_exit env (chans m) of
           None \<Rightarrow> None
         | Some c' \<Rightarrow> Some (m\<lparr>chans := c', server := (server m)\<lparr>alive := False\<rparr>\<rparr>))
      else Some m)"

definition ServerManager_halt :: "worker_env \<Rightarrow> manager \<Rightarrow> (unit, manager) outcome option" where
  "ServerManager_halt env m =
     (if alive (server m) then
        (case ServerManager_ask env [PyStr ''halt''] NoTimeout m of
           None \<Rightarrow> None
         | Some (Inl e, m') \<Rightarrow> Some (Inl e, m')
         | Some (Inr r, m') \<Rightarrow>
             (case process_join env m' of
                None \<Rightarrow> None
              | Some m'' \<Rightarrow> Some (Inr (), m'')))
      else
        (case process_join env m of
           None \<Rightarrow> None
         | Some m'' \<Rightarrow> Some (Inr (), m'')))"

text \<open>
  \<open>_start_server(self, name)\<close> has one positional parameter besides \<open>self\<close>; a call
  with another number of arguments raises \<open>TypeError\<close> before the body runs. The body
  makes a \<open>QcodesProcess\<close> whose target is \<open>_run_server\<close>, that is the manager's
  \<open>_server_class\<close>, and starts it.
\<close>

definition ServerManager_start_server :: "string list \<Rightarrow> manager \<Rightarrow> (unit, manager) outcome" where
  "ServerManager_start_server args m =
     (case args of
        [] \<Rightarrow>
          (Inl (TypeError ''_start_server() missing 1 required positional argument: name''),
           m)
      | [name'] \<Rightarrow>
          (Inr (),
           m\<lparr>server := \<lparr>proc_name = name', proc_target = server_class m, alive = True\<rparr>\<rparr>)
      | _ \<Rightarrow>
          (Inl (TypeError ''_start_server() takes 2 positional arguments but more were given''),
           m))"

definition ServerManager_restart :: "worker_env \<Rightarrow> manager \<Rightarrow> (unit, manager) outcome option" where
  "ServerManager_restart env m =
     (case ServerManager_halt env m of
        None \<Rightarrow> None
      | Some (Inl e, m') \<Rightarrow> Some (Inl e, m')
      | Some (Inr u, m') \<Rightarrow> Some (ServerManager_start_server [] m'))"

text \<open>The header of an error report, as \<open>_check_for_errors\<close> formats it.\<close>

definition errhead_of :: "manager \<Rightarrow> string" where
  "errhead_of m = ''*** error on '' @ name m @ '' ***''"

subsection \<open>\<open>ServerManager.__init__\<close>\<close>

text \<open>The constructor makes the three queues and the lock, and starts the server.\<close>

definition ServerManager_init ::
    "string \<Rightarrow> string \<Rightarrow> pyobj list \<Rightarrow> timeout \<Rightarrow> string \<Rightarrow> (unit, manager) outcome" where
  "ServerManager_init name' server_class' server_extras' query_timeout' err =
     ServerManager_start_server [name']
       \<lparr>name = name',
        chans = \<lparr>query_queue = [], response_queue = [], error_queue = []\<rparr>,
        server_class = server_class',
        server_extras = server_extras',
        query_lock = 0,
        query_timeout = query_timeout',
        server = \<lparr>proc_name = [], proc_target = [], alive = False\<rparr>,
        stderr_text = err\<rparr>"

subsection \<open>Concrete states\<close>

text \<open>
  An interpreter whose streams are the regular ones, with an empty open queue that was
  last read at time 10, and the same interpreter after \<open>connect\<close> in process \<open>W1\<close>.
\<close>

definition sq_idle :: stream_queue where
  "sq_idle = \<lparr>queue = \<lparr>items = [], closed = False\<rparr>, last_read_ts = 10,
     last_stream = None, on_new_line = True, initial_streams = None\<rparr>"

definition interp_idle :: interp where
  "interp_idle = \<lparr>sq = sq_idle,
     sys_stdout = FileHandle ''stdout'', sys_stderr = FileHandle ''stderr'',
     sys_dunder_stdout = FileHandle ''stdout'', sys_dunder_stderr = FileHandle ''stderr'',
     dunder_terminal = \<lparr>term_text = [], term_fault = None\<rparr>\<rparr>"

definition interp_connected :: interp where
  "interp_connected = interp_idle\<lparr>
     sq := sq_idle\<lparr>initial_streams := Some (FileHandle ''stdout'', FileHandle ''stderr'')\<rparr>,
     sys_stdout := SQWriter ''W1'', sys_stderr := SQWriter ''W1 ERR''\<rparr>"

text \<open>
  A manager named \<open>srv\<close> with a live worker and the default timeout of two seconds, and
  the same manager with the error \<open>boom\<close> pending.
\<close>

definition manager_srv :: manager where
  "manager_srv = \<lparr>name = ''srv'',
     chans = \<lparr>query_queue = [], response_queue = [], error_queue = []\<rparr>,
     server_class = ''Echo'', server_extras = [], query_lock = 0,
     query_timeout = Seconds 2,
     server = \<lparr>proc_name = ''srv'', proc_target = ''Echo'', alive = True\<rparr>,
     stderr_text = []\<rparr>"

definition manager_srv_failed :: manager where
  "manager_srv_failed = manager_srv\<lparr>chans := (chans manager_srv)\<lparr>error_queue := [''boom'']\<rparr>\<rparr>"

text \<open>
  Four workers. \<open>worker_echo\<close> answers 42 to a controller that waits two seconds and
  nothing to one that waits otherwise; \<open>worker_silent\<close> never touches the channels;
  \<open>worker_failing\<close> reports the error \<open>boom\<close> and sends no response;
  \<open>worker_late_error\<close> sends the response 42 and reports \<open>boom\<close> as well. All of them
  exit when asked to.
\<close>

definition worker_echo :: worker_env where
  "worker_echo = \<lparr>
     wait_response = (\<lambda>t c. if t = Seconds 2
        then Some (c\<lparr>query_queue := [], response_queue := response_queue c @ [PyInt 42]\<rparr>)
        else Some (c\<lparr>query_queue := []\<rparr>)),
     wait_exit = (\<lambda>c. Some c)\<rparr>"

definition worker_silent :: worker_env where
  "worker_silent = \<lparr>wait_response = (\<lambda>t c. Some c), wait_exit = (\<lambda>c. Some c)\<rparr>"

definition worker_failing :: worker_env where
  "worker_failing = \<lparr>
     wait_response = (\<lambda>t c. Some (c\<lparr>query_queue := [],
                                     error_queue := error_queue c @ [''boom'']\<rparr>)),
     wait_exit = (\<lambda>c. Some c)\<rparr>"

definition worker_late_error :: worker_env where
  "worker_late_error = \<lparr>
     wait_response = (\<lambda>t c. Some (c\<lparr>query_queue := [],
                                     response_queue := response_queue c @ [PyInt 42],
                                     error_queue := error_queue c @ [''boom'']\<rparr>)),
     wait_exit = (\<lambda>c. Some c)\<rparr>"

text \<open>The manager \<open>srv\<close> after its worker process has exited.\<close>

definition manager_srv_exited :: manager where
  "manager_srv_exited = manager_srv\<lparr>server := (server manager_srv)\<lparr>alive := False\<rparr>\<rparr>"

subsection \<open>What the design document asks of the writer and of the drain\<close>

text \<open>
  The time of a message as the design states it: hours, minutes, seconds and
  milliseconds, \<open>HH:MM:SS.mmm\<close>.
\<close>

definition hms_millis :: "datetime \<Rightarrow> string" where
  "hms_millis dt =
     zero_padded 2 (hour dt) @ '':'' @ zero_padded 2 (minute dt) @ '':''
       @ zero_padded 2 (second dt) @ ''.'' @ zero_padded 3 (microsecond dt div 1000)"

text \<open>A line with a single trailing newline trimmed.\<close>

definition strip_one_newline :: "string \<Rightarrow> string" where
  "strip_one_newline s = (if s \<noteq> [] \<and> last s = newline then butlast s else s)"

text \<open>
  The text of a message with the line-head repeated after every embedded newline; the
  final character is kept as it is, so that a trailing newline gets no line-head.
\<close>

fun with_line_heads :: "string \<Rightarrow> string \<Rightarrow> string" where
  "with_line_heads h [] = []"
| "with_line_heads h [c] = [c]"
| "with_line_heads h (c # d # cs) =
     (if c = newline then newline # h else [c]) @ with_line_heads h (d # cs)"

text \<open>
  The coalescing rule for one message, given whether the output so far ended at a line
  boundary and which stream wrote last: at a line boundary the line-head is emitted;
  mid-line, a message of the same stream is appended without a line-head, and a message
  of another stream starts on a new line, with its line-head.
\<close>

definition render_message :: "bool \<Rightarrow> string option \<Rightarrow> message \<Rightarrow> string" where
  "render_message at_line_start last_stream_name m =
     (case m of (timestr, stream_name, text) \<Rightarrow>
        (if at_line_start then line_head_of timestr stream_name
         else if last_stream_name = Some stream_name then []
         else newline # line_head_of timestr stream_name)
        @ with_line_heads (line_head_of timestr stream_name) text)"

fun drained_text :: "bool \<Rightarrow> string option \<Rightarrow> message list \<Rightarrow> string" where
  "drained_text at_line_start last_stream_name [] = []"
| "drained_text at_line_start last_stream_name (m # ms) =
     render_message at_line_start last_stream_name m
       @ drained_text (last (snd (snd m)) = newline) (Some (fst (snd m))) ms"

fun cursor_after :: "bool \<times> string option \<Rightarrow> message list \<Rightarrow> bool \<times> string option" where
  "cursor_after cur [] = cur"
| "cursor_after cur (m # ms) =
     cursor_after (last (snd (snd m)) = newline, Some (fst (snd m))) ms"

text \<open>Every queued message has a text that is not empty, as \<open>_SQWriter.write\<close> ensures.\<close>

definition texts_nonempty :: "message list \<Rightarrow> bool" where
  "texts_nonempty ms = list_all (\<lambda>m. snd (snd m) \<noteq> []) ms"

text \<open>
  A reading of the clock, the connected interpreter with a closed queue, and two queues
  of messages: the two writes of a worker \<open>W1\<close>, and four messages of two streams.
\<close>

definition clock_0905 :: datetime where
  "clock_0905 = \<lparr>hour = 9, minute = 5, second = 7, microsecond = 123456\<rparr>"

definition interp_connected_closed :: interp where
  "interp_connected_closed =
     interp_connected\<lparr>sq := (sq interp_connected)\<lparr>queue := \<lparr>items = [], closed = True\<rparr>\<rparr>\<rparr>"

text \<open>
  The doubles from 2 to 4 are the multiples of \<open>2^-51\<close>, and a value in that range that
  is not halfway between two of them rounds to the nearest one. The doubles that Python
  writes \<open>3.1\<close> and \<open>0.1\<close>, and the connected interpreter whose queue was last read
  at time \<open>0.1\<close>.
\<close>

definition nearest_double_2_4 :: "rat \<Rightarrow> rat" where
  "nearest_double_2_4 x = of_int (round (x * 2 ^ 51)) / 2 ^ 51"

definition double_3_1 :: rat where
  "double_3_1 = 6980579422424269 / 2 ^ 51"

definition double_0_1 :: rat where
  "double_0_1 = 3602879701896397 / 2 ^ 55"

definition interp_read_at_0_1 :: interp where
  "interp_read_at_0_1 = interp_connected\<lparr>sq := (sq interp_connected)\<lparr>last_read_ts := double_0_1\<rparr>\<rparr>"

text \<open>The connected interpreter with a terminal whose pipe is broken.\<close>

definition interp_connected_broken :: interp where
  "interp_connected_broken =
     interp_connected\<lparr>dunder_terminal := \<lparr>term_text = [],
                                               term_fault = Some (OSError ''Broken pipe'')\<rparr>\<rparr>"

definition sq_hello_world :: stream_queue where
  "sq_hello_world = sq_idle\<lparr>queue := \<lparr>items =
     [(''t1'', ''W1'', ''hello'' @ [newline]), (''t2'', ''W1 ERR'', ''world'')],
     closed = False\<rparr>\<rparr>"

definition sq_interleaved :: stream_queue where
  "sq_interleaved = sq_idle\<lparr>queue := \<lparr>items =
     [(''t1'', ''A'', ''ab''), (''t2'', ''A'', ''c'' @ [newline] @ ''d'' @ [newline]),
      (''t3'', ''B'', ''x''), (''t4'', ''A'', ''y'' @ [newline])],
     closed = False\<rparr>\<rparr>"

section \<open>Connecting and disconnecting\<close>

text \<open>
  Claim C4. On a \<open>StreamQueue\<close> that is not connected, \<open>connect(process_name)\<close> succeeds
  and a following \<open>disconnect()\<close> succeeds and puts back into \<open>sys.stdout\<close> and
  \<open>sys.stderr\<close> exactly the handles that were there when \<open>connect\<close> was called, and the
  whole interpreter state is then what it was before. \<open>connect\<close> on a connected
  \<open>StreamQueue\<close> raises the already-connected \<open>RuntimeError\<close>, \<open>disconnect\<close> on one that
  is not connected raises the not-connected \<open>RuntimeError\<close>, and in both cases the
  \<open>StreamQueue\<close> and the stream handles are left as they were.
\<close>

theorem connect_disconnect_restores:
  "(initial_streams (sq w) = None \<longrightarrow>
      (\<exists>w1. StreamQueue_connect process_name w = (Inr (), w1)
         \<and> initial_streams (sq w1) = Some (sys_stdout w, sys_stderr w)
         \<and> sys_stdout w1 = SQWriter process_name
         \<and> sys_stderr w1 = SQWriter (process_name @ '' ERR'')
         \<and> (\<exists>w2. StreamQueue_disconnect w1 = (Inr (), w2)
               \<and> sys_stdout w2 = sys_stdout w \<and> sys_stderr w2 = sys_stderr w
               \<and> w2 = w)))
   \<and> (initial_streams (sq w) \<noteq> None \<longrightarrow>
        StreamQueue_connect process_name w
          = (Inl (RuntimeError ''StreamQueue is already connected''), w))
   \<and> (initial_streams (sq w) = None \<longrightarrow>
        StreamQueue_disconnect w
          = (Inl (RuntimeError ''StreamQueue is not connected''), w))"
proof (intro conjI impI)
  assume idle: "initial_streams (sq w) = None"
  let ?w1 = "w\<lparr>sq := (sq w)\<lparr>initial_streams := Some (sys_stdout w, sys_stderr w)\<rparr>,
               sys_stdout := SQWriter process_name,
               sys_stderr := SQWriter (process_name @ '' ERR'')\<rparr>"
  from idle have c: "StreamQueue_connect process_name w = (Inr (), ?w1)"
    by (simp add: StreamQueue_connect_def)
  have "(sq w)\<lparr>initial_streams := None\<rparr> = sq w"
    using idle by simp
  then have d: "StreamQueue_disconnect ?w1 = (Inr (), w)"
    by (simp add: StreamQueue_disconnect_def)
  from c d
  show "\<exists>w1. StreamQueue_connect process_name w = (Inr (), w1)
         \<and> initial_streams (sq w1) = Some (sys_stdout w, sys_stderr w)
         \<and> sys_stdout w1 = SQWriter process_name
         \<and> sys_stderr w1 = SQWriter (process_name @ '' ERR'')
         \<and> (\<exists>w2. StreamQueue_disconnect w1 = (Inr (), w2)
               \<and> sys_stdout w2 = sys_stdout w \<and> sys_stderr w2 = sys_stderr w
               \<and> w2 = w)"
    by simp
next
  assume "initial_streams (sq w) \<noteq> None"
  then show "StreamQueue_connect process_name w
          = (Inl (RuntimeError ''StreamQueue is already connected''), w)"
    by (simp add: StreamQueue_connect_def)
next
  assume "initial_streams (sq w) = None"
  then show "StreamQueue_disconnect w
          = (Inl (RuntimeError ''StreamQueue is not connected''), w)"
    by (simp add: StreamQueue_disconnect_def)
qed

theorem connect_disconnect_restores_witness:
  "initial_streams (sq interp_idle) = None
   \<and> StreamQueue_connect ''W1'' interp_idle = (Inr (), interp_connected)
   \<and> StreamQueue_disconnect interp_connected = (Inr (), interp_idle)
   \<and> StreamQueue_disconnect interp_idle
        = (Inl (RuntimeError ''StreamQueue is not connected''), interp_idle)
   \<and> initial_streams (sq interp_connected) \<noteq> None
   \<and> StreamQueue_connect ''W2'' interp_connected
        = (Inl (RuntimeError ''StreamQueue is already connected''), interp_connected)"
  using connect_disconnect_restores [of interp_idle "''W1''"]
    connect_disconnect_restores [of interp_connected "''W2''"]
  by (simp add: interp_idle_def interp_connected_def sq_idle_def StreamQueue_connect_def)

section \<open>Fire-and-forget queries\<close>

lemma check_for_errors_empty:
  "error_queue (chans m) = [] \<Longrightarrow> ServerManager_check_for_errors m = (Inr (), m)"
  by (simp add: ServerManager_check_for_errors_def)

lemma check_for_errors_pending:
  "error_queue (chans m) = errstr # rest \<Longrightarrow>
   ServerManager_check_for_errors m =
     (Inl (RuntimeError (errhead_of m)),
      m\<lparr>chans := (chans m)\<lparr>error_queue := rest\<rparr>,
        stderr_text := stderr_text m @ errhead_of m @ [newline, newline] @ errstr @ [newline]\<rparr>)"
  by (simp add: ServerManager_check_for_errors_def errhead_of_def Let_def)

text \<open>
  Claim C3. \<open>write(*args)\<close> appends the tuple of its arguments, as one item, to the
  query queue. Then, if the error queue is empty, it returns normally and nothing else
  has changed. If the error queue holds \<open>errstr\<close> at its head, exactly that one item is
  taken from it, the header \<open>*** error on <name> ***\<close>, a blank line and \<open>errstr\<close> are
  printed on the controller's \<open>sys.stderr\<close>, and a \<open>RuntimeError\<close> is raised whose text
  is the header, which contains the manager's name.
\<close>

theorem write_enqueues_then_checks_errors:
  "(error_queue (chans m) = [] \<longrightarrow>
      ServerManager_write q m =
        (Inr (), m\<lparr>chans := (chans m)\<lparr>query_queue := query_queue (chans m) @ [q]\<rparr>\<rparr>))
   \<and> (\<forall>errstr rest. error_queue (chans m) = errstr # rest \<longrightarrow>
        ServerManager_write q m =
          (Inl (RuntimeError (''*** error on '' @ name m @ '' ***'')),
           m\<lparr>chans := (chans m)\<lparr>query_queue := query_queue (chans m) @ [q],
                                 error_queue := rest\<rparr>,
             stderr_text := stderr_text m @ ''*** error on '' @ name m @ '' ***''
                              @ [newline, newline] @ errstr @ [newline]\<rparr>))"
proof (intro conjI allI impI)
  assume "error_queue (chans m) = []"
  then show "ServerManager_write q m =
      (Inr (), m\<lparr>chans := (chans m)\<lparr>query_queue := query_queue (chans m) @ [q]\<rparr>\<rparr>)"
    by (simp add: ServerManager_write_def query_put_def check_for_errors_empty)
next
  fix errstr rest
  assume "error_queue (chans m) = errstr # rest"
  then have "error_queue (chans (query_put q m)) = errstr # rest"
    by (simp add: query_put_def)
  from check_for_errors_pending [OF this]
  show "ServerManager_write q m =
      (Inl (RuntimeError (''*** error on '' @ name m @ '' ***'')),
       m\<lparr>chans := (chans m)\<lparr>query_queue := query_queue (chans m) @ [q],
                             error_queue := rest\<rparr>,
         stderr_text := stderr_text m @ ''*** error on '' @ name m @ '' ***''
                          @ [newline, newline] @ errstr @ [newline]\<rparr>)"
    by (simp add: ServerManager_write_def query_put_def errhead_of_def)
qed

theorem write_enqueues_then_checks_errors_witness:
  "error_queue (chans manager_srv) = []
   \<and> ServerManager_write [PyStr ''set'', PyInt 3] manager_srv =
        (Inr (), manager_srv\<lparr>chans := (chans manager_srv)\<lparr>query_queue :=
                   [[PyStr ''set'', PyInt 3]]\<rparr>\<rparr>)
   \<and> error_queue (chans manager_srv_failed) = [''boom'']
   \<and> ServerManager_write [PyStr ''set'', PyInt 3] manager_srv_failed =
        (Inl (RuntimeError ''*** error on srv ***''),
         manager_srv\<lparr>chans := (chans manager_srv)\<lparr>query_queue :=
                   [[PyStr ''set'', PyInt 3]]\<rparr>,
           stderr_text := ''*** error on srv ***'' @ [newline, newline] @ ''boom''
                            @ [newline]\<rparr>)"
  using write_enqueues_then_checks_errors [of manager_srv "[PyStr ''set'', PyInt 3]"]
    write_enqueues_then_checks_errors [of manager_srv_failed "[PyStr ''set'', PyInt 3]"]
  by (simp add: manager_srv_def manager_srv_failed_def)

section \<open>Queries that wait for a response\<close>

text \<open>
  What \<open>ask\<close> does, by the content \<open>c'\<close> of the channels when the wait on the response
  queue ends. The lock is back at its depth in every outcome.
\<close>

lemma ask_characterisation:
  "ServerManager_ask env q timeout m =
     (case wait_response env (py_or timeout (query_timeout m))
             ((chans m)\<lparr>query_queue := query_queue (chans m) @ [q]\<rparr>) of
        None \<Rightarrow> None
      | Some c' \<Rightarrow>
          if response_queue c' \<noteq> [] then
            (if error_queue c' = [] then
               Some (Inr (hd (response_queue c')),
                     m\<lparr>chans := c'\<lparr>response_queue := tl (response_queue c')\<rparr>\<rparr>)
             else
               Some (Inl (RuntimeError (errhead_of m)),
                     m\<lparr>chans := c'\<lparr>response_queue := tl (response_queue c'),
                                   error_queue := tl (error_queue c')\<rparr>,
                       stderr_text := stderr_text m @ errhead_of m @ [newline, newline]
                                        @ hd (error_queue c') @ [newline]\<rparr>))
          else if py_or timeout (query_timeout m) = NoTimeout then None
          else if error_queue c' = [] then Some (Inl Empty, m\<lparr>chans := c'\<rparr>)
          else
            Some (Inl (RuntimeError (errhead_of m)),
                  m\<lparr>chans := c'\<lparr>error_queue := tl (error_queue c')\<rparr>,
                    stderr_text := stderr_text m @ errhead_of m @ [newline, newline]
                                     @ hd (error_queue c') @ [newline]\<rparr>))"
proof (cases "wait_response env (py_or timeout (query_timeout m))
                ((chans m)\<lparr>query_queue := query_queue (chans m) @ [q]\<rparr>)")
  case None
  then show ?thesis
    by (simp add: ServerManager_ask_def ask_locked_def response_get_def query_put_def
        lock_acquire_def)
next
  case (Some c')
  then show ?thesis
    by (simp add: ServerManager_ask_def ask_locked_def response_get_def query_put_def
        ServerManager_check_for_errors_def errhead_of_def Let_def
        lock_acquire_def lock_release_def)
qed

text \<open>
  Claim C2, as amended. \<open>ask(*query, timeout)\<close> runs its body with the query lock held
  and gives the lock back on every exit. The body appends the query to the query queue
  and waits on the response queue with the timeout \<open>timeout or query_timeout\<close>. Let
  \<open>c'\<close> be the content of the channels when that wait ends. If the wait timed out and
  the error queue is empty, \<open>Empty\<close> is raised again and nothing else has changed. If
  the wait timed out and the error queue is not empty, the outcome is that of
  \<open>_check_for_errors\<close>, the function \<open>write\<close> reports errors with. If a response came
  and the error queue is empty, \<open>ask\<close> returns the response it took from the queue.
\<close>

theorem ask_outcomes:
  assumes "wait_response env (py_or timeout (query_timeout m))
             ((chans m)\<lparr>query_queue := query_queue (chans m) @ [q]\<rparr>) = Some c'"
  shows "ServerManager_ask env q timeout m =
           (case ask_locked env q (py_or timeout (query_timeout m))
                   (m\<lparr>query_lock := Suc (query_lock m)\<rparr>) of
              None \<Rightarrow> None
            | Some (r, m') \<Rightarrow> Some (r, m'\<lparr>query_lock := query_lock m' - 1\<rparr>))
         \<and> (response_queue c' = [] \<and> py_or timeout (query_timeout m) \<noteq> NoTimeout
              \<and> error_queue c' = [] \<longrightarrow>
              ServerManager_ask env q timeout m = Some (Inl Empty, m\<lparr>chans := c'\<rparr>))
         \<and> (response_queue c' = [] \<and> py_or timeout (query_timeout m) \<noteq> NoTimeout
              \<and> error_queue c' \<noteq> [] \<longrightarrow>
              (\<exists>e m'. ServerManager_check_for_errors (m\<lparr>chans := c'\<rparr>) = (Inl e, m')
                 \<and> ServerManager_ask env q timeout m = Some (Inl e, m')
                 \<and> e = RuntimeError (''*** error on '' @ name m @ '' ***'')))
         \<and> (response_queue c' \<noteq> [] \<and> error_queue c' = [] \<longrightarrow>
              ServerManager_ask env q timeout m =
                Some (Inr (hd (response_queue c')),
                      m\<lparr>chans := c'\<lparr>response_queue := tl (response_queue c')\<rparr>\<rparr>))"
proof (intro conjI impI)
  show "ServerManager_ask env q timeout m =
           (case ask_locked env q (py_or timeout (query_timeout m))
                   (m\<lparr>query_lock := Suc (query_lock m)\<rparr>) of
              None \<Rightarrow> None
            | Some (r, m') \<Rightarrow> Some (r, m'\<lparr>query_lock := query_lock m' - 1\<rparr>))"
    by (simp add: ServerManager_ask_def lock_acquire_def lock_release_def
        split: option.splits)
next
  assume "response_queue c' = [] \<and> py_or timeout (query_timeout m) \<noteq> NoTimeout
            \<and> error_queue c' = []"
  with assms show "ServerManager_ask env q timeout m = Some (Inl Empty, m\<lparr>chans := c'\<rparr>)"
    by (simp add: ask_characterisation)
next
  assume a: "response_queue c' = [] \<and> py_or timeout (query_timeout m) \<noteq> NoTimeout
            \<and> error_queue c' \<noteq> []"
  then obtain errstr rest where e: "error_queue c' = errstr # rest"
    by (cases "error_queue c'") auto
  then have "error_queue (chans (m\<lparr>chans := c'\<rparr>)) = errstr # rest"
    by simp
  from check_for_errors_pending [OF this] assms a e
  show "\<exists>e m'. ServerManager_check_for_errors (m\<lparr>chans := c'\<rparr>) = (Inl e, m')
          \<and> ServerManager_ask env q timeout m = Some (Inl e, m')
          \<and> e = RuntimeError (''*** error on '' @ name m @ '' ***'')"
    by (simp add: ask_characterisation errhead_of_def)
next
  assume "response_queue c' \<noteq> [] \<and> error_queue c' = []"
  with assms show "ServerManager_ask env q timeout m =
      Some (Inr (hd (response_queue c')),
            m\<lparr>chans := c'\<lparr>response_queue := tl (response_queue c')\<rparr>\<rparr>)"
    by (simp add: ask_characterisation)
qed

theorem ask_outcomes_witness:
  "ServerManager_ask worker_silent [PyStr ''get''] (Seconds (1 / 10)) manager_srv =
     Some (Inl Empty,
           manager_srv\<lparr>chans := (chans manager_srv)\<lparr>query_queue := [[PyStr ''get'']]\<rparr>\<rparr>)
   \<and> ServerManager_ask worker_failing [PyStr ''get''] NoTimeout manager_srv =
       Some (Inl (RuntimeError ''*** error on srv ***''),
             manager_srv\<lparr>stderr_text := ''*** error on srv ***'' @ [newline, newline]
                                          @ ''boom'' @ [newline]\<rparr>)
   \<and> ServerManager_ask worker_echo [PyStr ''get''] NoTimeout manager_srv =
       Some (Inr (PyInt 42), manager_srv)"
proof -
  let ?c = "(chans manager_srv)\<lparr>query_queue := query_queue (chans manager_srv) @ [[PyStr ''get'']]\<rparr>"
  have 1: "wait_response worker_silent (py_or (Seconds (1 / 10)) (query_timeout manager_srv)) ?c
             = Some ((chans manager_srv)\<lparr>query_queue := [[PyStr ''get'']]\<rparr>)"
    by (simp add: worker_silent_def manager_srv_def)
  have 2: "wait_response worker_failing (py_or NoTimeout (query_timeout manager_srv)) ?c
             = Some ((chans manager_srv)\<lparr>error_queue := [''boom'']\<rparr>)"
    by (simp add: worker_failing_def manager_srv_def)
  have 3: "wait_response worker_echo (py_or NoTimeout (query_timeout manager_srv)) ?c
             = Some ((chans manager_srv)\<lparr>response_queue := [PyInt 42]\<rparr>)"
    by (simp add: worker_echo_def manager_srv_def py_or_def)
  show ?thesis
    using ask_outcomes [OF 1, THEN conjunct2] ask_outcomes [OF 2, THEN conjunct2]
      ask_outcomes [OF 3, THEN conjunct2]
    by (simp add: manager_srv_def py_or_def ServerManager_check_for_errors_def)
qed

text \<open>
  The claim as it was stated also promised the response whenever one arrives. With the
  worker that sends 42 and reports \<open>boom\<close>, the response is in the queue when the wait
  ends and \<open>ask\<close> raises instead of returning it.
\<close>

theorem ask_returns_response_counterexample:
  "wait_response worker_late_error (Seconds 2)
      \<lparr>query_queue = [[PyStr ''get'']], response_queue = [], error_queue = []\<rparr>
     = Some \<lparr>query_queue = [], response_queue = [PyInt 42], error_queue = [''boom'']\<rparr>
   \<and> ServerManager_ask worker_late_error [PyStr ''get''] (Seconds 2) manager_srv
       = Some (Inl (RuntimeError ''*** error on srv ***''),
               manager_srv\<lparr>stderr_text := ''*** error on srv ***'' @ [newline, newline]
                                            @ ''boom'' @ [newline]\<rparr>)
   \<and> ServerManager_ask worker_late_error [PyStr ''get''] (Seconds 2) manager_srv
       \<noteq> Some (Inr (PyInt 42), manager_srv)"
  by (simp add: ServerManager_ask_def ask_locked_def response_get_def query_put_def
      ServerManager_check_for_errors_def lock_acquire_def lock_release_def Let_def
      worker_late_error_def manager_srv_def py_or_def)

text \<open>
  Claim C10. When a response is in the queue at the end of the wait, \<open>ask\<close> takes it and
  then still calls \<open>_check_for_errors\<close>. If the error queue is not empty at that point,
  the call raises the \<open>RuntimeError\<close> of the pending error, which is taken from the
  error queue and printed; the response has left the response queue and is not returned.
\<close>

theorem ask_discards_response_on_error:
  assumes "wait_response env (py_or timeout (query_timeout m))
             ((chans m)\<lparr>query_queue := query_queue (chans m) @ [q]\<rparr>) = Some c'"
    and "response_queue c' = res # responses"
    and "error_queue c' = errstr # errors"
  shows "ServerManager_check_for_errors (m\<lparr>chans := c'\<lparr>response_queue := responses\<rparr>\<rparr>)
           = (Inl (RuntimeError (''*** error on '' @ name m @ '' ***'')),
              m\<lparr>chans := c'\<lparr>response_queue := responses, error_queue := errors\<rparr>,
                stderr_text := stderr_text m @ ''*** error on '' @ name m @ '' ***''
                                 @ [newline, newline] @ errstr @ [newline]\<rparr>)
         \<and> ServerManager_ask env q timeout m
             = Some (Inl (RuntimeError (''*** error on '' @ name m @ '' ***'')),
                     m\<lparr>chans := c'\<lparr>response_queue := responses, error_queue := errors\<rparr>,
                       stderr_text := stderr_text m @ ''*** error on '' @ name m @ '' ***''
                                        @ [newline, newline] @ errstr @ [newline]\<rparr>)"
proof
  have "error_queue (chans (m\<lparr>chans := c'\<lparr>response_queue := responses\<rparr>\<rparr>)) = errstr # errors"
    using assms(3) by simp
  from check_for_errors_pending [OF this]
  show "ServerManager_check_for_errors (m\<lparr>chans := c'\<lparr>response_queue := responses\<rparr>\<rparr>)
           = (Inl (RuntimeError (''*** error on '' @ name m @ '' ***'')),
              m\<lparr>chans := c'\<lparr>response_queue := responses, error_queue := errors\<rparr>,
                stderr_text := stderr_text m @ ''*** error on '' @ name m @ '' ***''
                                 @ [newline, newline] @ errstr @ [newline]\<rparr>)"
    by (simp add: errhead_of_def)
next
  from assms
  show "ServerManager_ask env q timeout m
             = Some (Inl (RuntimeError (''*** error on '' @ name m @ '' ***'')),
                     m\<lparr>chans := c'\<lparr>response_queue := responses, error_queue := errors\<rparr>,
                       stderr_text := stderr_text m @ ''*** error on '' @ name m @ '' ***''
                                        @ [newline, newline] @ errstr @ [newline]\<rparr>)"
    by (simp add: ask_characterisation errhead_of_def)
qed

theorem ask_discards_response_on_error_witness:
  "ServerManager_ask worker_late_error [PyStr ''get'', PyInt 7] (Seconds 5) manager_srv_failed
     = Some (Inl (RuntimeError ''*** error on srv ***''),
             manager_srv\<lparr>chans := (chans manager_srv)\<lparr>error_queue := [''boom'']\<rparr>,
               stderr_text := ''*** error on srv ***'' @ [newline, newline] @ ''boom''
                                @ [newline]\<rparr>)"
proof -
  have w: "wait_response worker_late_error (py_or (Seconds 5) (query_timeout manager_srv_failed))
             ((chans manager_srv_failed)\<lparr>query_queue :=
                query_queue (chans manager_srv_failed) @ [[PyStr ''get'', PyInt 7]]\<rparr>)
           = Some \<lparr>query_queue = [], response_queue = [PyInt 42],
                   error_queue = [''boom'', ''boom'']\<rparr>"
    by (simp add: worker_late_error_def manager_srv_failed_def manager_srv_def)
  show ?thesis
    using ask_discards_response_on_error [OF w, of "PyInt 42" "[]" "''boom''" "[''boom'']",
        THEN conjunct2]
    by (simp add: manager_srv_failed_def manager_srv_def)
qed

text \<open>
  Claim C9. The timeout of the wait is \<open>timeout or self.query_timeout\<close>: a \<open>timeout\<close>
  that is \<open>None\<close>, or \<open>0\<close>, is replaced by the manager's \<open>query_timeout\<close>. The call then
  is the locked body run with \<open>query_timeout\<close>, it does what a call without the
  argument does, and of the worker only what it does during a wait of \<open>query_timeout\<close>
  can make a difference.
\<close>

theorem ask_falsy_timeout_uses_default:
  assumes "\<not> truthy timeout"
  shows "ServerManager_ask env q timeout m =
           (case ask_locked env q (query_timeout m) (lock_acquire m) of
              None \<Rightarrow> None
            | Some (r, m') \<Rightarrow> Some (r, lock_release m'))
         \<and> ServerManager_ask env q timeout m = ServerManager_ask env q NoTimeout m
         \<and> (wait_response env' (query_timeout m) = wait_response env (query_timeout m) \<longrightarrow>
              ServerManager_ask env' q timeout m = ServerManager_ask env q timeout m)"
proof -
  have t: "py_or timeout (query_timeout m) = query_timeout m"
    using assms by (simp add: py_or_def)
  have n: "py_or NoTimeout (query_timeout m) = query_timeout m"
    by (simp add: py_or_def)
  have a: "ServerManager_ask env q timeout m =
           (case ask_locked env q (query_timeout m) (lock_acquire m) of
              None \<Rightarrow> None
            | Some (r, m') \<Rightarrow> Some (r, lock_release m'))"
    by (simp add: ServerManager_ask_def t)
  have b: "ServerManager_ask env q timeout m = ServerManager_ask env q NoTimeout m"
    by (simp add: ServerManager_ask_def t n)
  have c: "ServerManager_ask env' q timeout m = ServerManager_ask env q timeout m"
    if "wait_response env' (query_timeout m) = wait_response env (query_timeout m)"
    using that by (simp add: ask_characterisation t)
  from a b c show ?thesis
    by blast
qed

theorem ask_falsy_timeout_uses_default_witness:
  "\<not> truthy (Seconds 0)
   \<and> ServerManager_ask worker_echo [PyStr ''get''] (Seconds 0) manager_srv
       = Some (Inr (PyInt 42), manager_srv)
   \<and> ServerManager_ask worker_echo [PyStr ''get''] (Seconds 1) manager_srv
       = Some (Inl Empty, manager_srv)"
proof -
  have z: "\<not> truthy (Seconds 0)"
    by simp
  have d: "ServerManager_ask worker_echo [PyStr ''get''] NoTimeout manager_srv
             = Some (Inr (PyInt 42), manager_srv)"
    by (simp add: ask_characterisation worker_echo_def manager_srv_def py_or_def)
  have o: "ServerManager_ask worker_echo [PyStr ''get''] (Seconds 1) manager_srv
             = Some (Inl Empty, manager_srv)"
    by (simp add: ask_characterisation worker_echo_def manager_srv_def py_or_def)
  show ?thesis
    using ask_falsy_timeout_uses_default [OF z, of worker_echo "[PyStr ''get'']" manager_srv
        worker_echo, THEN conjunct2, THEN conjunct1] z d o
    by simp
qed

section \<open>Halting and restarting the worker\<close>

lemma ask_keeps_server:
  "ServerManager_ask env q timeout m = Some (r, m') \<Longrightarrow> server m' = server m"
  by (auto simp: ask_characterisation split: option.splits if_splits)

text \<open>
  Claim C7, as amended. \<open>halt()\<close> on a manager whose worker process has exited sends
  nothing, raises nothing and returns at once, with the manager as it was: only the
  \<open>join\<close> of the dead process runs. On a live worker \<open>halt()\<close> first does
  \<open>ask('halt')\<close>. When that call returns normally, the process is joined: \<open>halt()\<close>
  returns normally once the worker has exited, with the process no longer alive, and
  does not return as long as the worker does not exit. When that call raises, \<open>Empty\<close>
  on a timeout or the \<open>RuntimeError\<close> of a pending error, the error leaves \<open>halt()\<close>
  and the process is not joined: it is still alive. So if the worker sees the query
  \<open>('halt',)\<close> at the end of the query queue, answers it with no error pending and
  then exits, \<open>halt()\<close> returns normally; if it sends no answer and reports no error
  within \<open>query_timeout\<close>, \<open>halt()\<close> raises \<open>Empty\<close>.
\<close>

theorem halt_asks_then_joins:
  "(\<not> alive (server m) \<longrightarrow> ServerManager_halt env m = Some (Inr (), m))
   \<and> (alive (server m)
        \<and> ServerManager_ask env [PyStr ''halt''] NoTimeout m = Some (Inr r, m') \<longrightarrow>
        ServerManager_halt env m =
          (case wait_exit env (chans m') of
             None \<Rightarrow> None
           | Some c \<Rightarrow>
               Some (Inr (), m'\<lparr>chans := c, server := (server m)\<lparr>alive := False\<rparr>\<rparr>)))
   \<and> (alive (server m)
        \<and> ServerManager_ask env [PyStr ''halt''] NoTimeout m = Some (Inl e, m') \<longrightarrow>
        ServerManager_halt env m = Some (Inl e, m') \<and> alive (server m'))
   \<and> (alive (server m) \<and> ServerManager_ask env [PyStr ''halt''] NoTimeout m = None \<longrightarrow>
        ServerManager_halt env m = None)
   \<and> (alive (server m)
        \<and> wait_response env (query_timeout m)
             ((chans m)\<lparr>query_queue := query_queue (chans m) @ [[PyStr ''halt'']]\<rparr>) = Some c1
        \<and> response_queue c1 \<noteq> [] \<and> error_queue c1 = []
        \<and> wait_exit env (c1\<lparr>response_queue := tl (response_queue c1)\<rparr>) = Some c2 \<longrightarrow>
        ServerManager_halt env m
          = Some (Inr (), m\<lparr>chans := c2, server := (server m)\<lparr>alive := False\<rparr>\<rparr>))
   \<and> (alive (server m)
        \<and> wait_response env (query_timeout m)
             ((chans m)\<lparr>query_queue := query_queue (chans m) @ [[PyStr ''halt'']]\<rparr>) = Some c1
        \<and> response_queue c1 = [] \<and> error_queue c1 = []
        \<and> query_timeout m \<noteq> NoTimeout \<longrightarrow>
        ServerManager_halt env m = Some (Inl Empty, m\<lparr>chans := c1\<rparr>))"
proof (intro conjI impI)
  assume "\<not> alive (server m)"
  then show "ServerManager_halt env m = Some (Inr (), m)"
    by (simp add: ServerManager_halt_def process_join_def)
next
  assume a: "alive (server m)
        \<and> ServerManager_ask env [PyStr ''halt''] NoTimeout m = Some (Inr r, m')"
  then have "server m' = server m"
    by (blast dest: ask_keeps_server)
  with a show "ServerManager_halt env m =
          (case wait_exit env (chans m') of
             None \<Rightarrow> None
           | Some c \<Rightarrow>
               Some (Inr (), m'\<lparr>chans := c, server := (server m)\<lparr>alive := False\<rparr>\<rparr>))"
    by (simp add: ServerManager_halt_def process_join_def split: option.splits)
next
  assume a: "alive (server m)
        \<and> ServerManager_ask env [PyStr ''halt''] NoTimeout m = Some (Inl e, m')"
  then show "ServerManager_halt env m = Some (Inl e, m')"
    by (simp add: ServerManager_halt_def)
next
  assume a: "alive (server m)
        \<and> ServerManager_ask env [PyStr ''halt''] NoTimeout m = Some (Inl e, m')"
  then have "server m' = server m"
    by (blast dest: ask_keeps_server)
  with a show "alive (server m')"
    by simp
next
  assume "alive (server m) \<and> ServerManager_ask env [PyStr ''halt''] NoTimeout m = None"
  then show "ServerManager_halt env m = None"
    by (simp add: ServerManager_halt_def)
next
  assume a: "alive (server m)
        \<and> wait_response env (query_timeout m)
             ((chans m)\<lparr>query_queue := query_queue (chans m) @ [[PyStr ''halt'']]\<rparr>) = Some c1
        \<and> response_queue c1 \<noteq> [] \<and> error_queue c1 = []
        \<and> wait_exit env (c1\<lparr>response_queue := tl (response_queue c1)\<rparr>) = Some c2"
  then have "ServerManager_ask env [PyStr ''halt''] NoTimeout m
      = Some (Inr (hd (response_queue c1)),
              m\<lparr>chans := c1\<lparr>response_queue := tl (response_queue c1)\<rparr>\<rparr>)"
    by (simp add: ask_characterisation py_or_def)
  with a show "ServerManager_halt env m
          = Some (Inr (), m\<lparr>chans := c2, server := (server m)\<lparr>alive := False\<rparr>\<rparr>)"
    by (simp add: ServerManager_halt_def process_join_def)
next
  assume a: "alive (server m)
        \<and> wait_response env (query_timeout m)
             ((chans m)\<lparr>query_queue := query_queue (chans m) @ [[PyStr ''halt'']]\<rparr>) = Some c1
        \<and> response_queue c1 = [] \<and> error_queue c1 = []
        \<and> query_timeout m \<noteq> NoTimeout"
  then have "ServerManager_ask env [PyStr ''halt''] NoTimeout m
      = Some (Inl Empty, m\<lparr>chans := c1\<rparr>)"
    by (simp add: ask_characterisation py_or_def)
  with a show "ServerManager_halt env m = Some (Inl Empty, m\<lparr>chans := c1\<rparr>)"
    by (simp add: ServerManager_halt_def)
qed

theorem halt_asks_then_joins_witness:
  "\<not> alive (server manager_srv_exited)
   \<and> ServerManager_halt worker_silent manager_srv_exited = Some (Inr (), manager_srv_exited)
   \<and> alive (server manager_srv)
   \<and> ServerManager_halt worker_echo manager_srv = Some (Inr (), manager_srv_exited)
   \<and> ServerManager_halt worker_failing manager_srv
       = Some (Inl (RuntimeError ''*** error on srv ***''),
               manager_srv\<lparr>stderr_text := ''*** error on srv ***'' @ [newline, newline]
                                            @ ''boom'' @ [newline]\<rparr>)"
proof -
  have f: "ServerManager_ask worker_failing [PyStr ''halt''] NoTimeout manager_srv
      = Some (Inl (RuntimeError ''*** error on srv ***''),
              manager_srv\<lparr>stderr_text := ''*** error on srv ***'' @ [newline, newline]
                                           @ ''boom'' @ [newline]\<rparr>)"
    by (simp add: ask_characterisation worker_failing_def manager_srv_def py_or_def
        errhead_of_def)
  have l: "alive (server manager_srv)"
    by (simp add: manager_srv_def)
  have 1: "ServerManager_halt worker_silent manager_srv_exited = Some (Inr (), manager_srv_exited)"
    using halt_asks_then_joins [of manager_srv_exited worker_silent, THEN conjunct1]
    by (simp add: manager_srv_exited_def manager_srv_def)
  have 2: "ServerManager_halt worker_echo manager_srv = Some (Inr (), manager_srv_exited)"
    using halt_asks_then_joins [of manager_srv worker_echo _ _ _
        "\<lparr>query_queue = [], response_queue = [PyInt 42], error_queue = []\<rparr>"
        "\<lparr>query_queue = [], response_queue = [], error_queue = []\<rparr>",
        THEN conjunct2, THEN conjunct2, THEN conjunct2, THEN conjunct2, THEN conjunct1]
    by (simp add: manager_srv_exited_def manager_srv_def worker_echo_def)
  have 3: "ServerManager_halt worker_failing manager_srv
       = Some (Inl (RuntimeError ''*** error on srv ***''),
               manager_srv\<lparr>stderr_text := ''*** error on srv ***'' @ [newline, newline]
                                            @ ''boom'' @ [newline]\<rparr>)"
    using halt_asks_then_joins [of manager_srv worker_failing _ _
        "RuntimeError ''*** error on srv ***''",
        THEN conjunct2, THEN conjunct2, THEN conjunct1] f l
    by simp
  from 1 2 3 l show ?thesis
    by (simp add: manager_srv_exited_def)
qed

text \<open>
  The claim as it was stated has the process joined whenever the worker is alive. With
  the worker that never answers, \<open>ask('halt')\<close> times out after \<open>query_timeout\<close>:
  \<open>halt()\<close> raises \<open>Empty\<close>, the process has not been joined and is still alive, and
  the query is still in the queue.
\<close>

theorem halt_joins_live_worker_counterexample:
  "alive (server manager_srv)
   \<and> ServerManager_halt worker_silent manager_srv
       = Some (Inl Empty,
               manager_srv\<lparr>chans := (chans manager_srv)\<lparr>query_queue := [[PyStr ''halt'']]\<rparr>\<rparr>)
   \<and> alive (server (manager_srv\<lparr>chans :=
               (chans manager_srv)\<lparr>query_queue := [[PyStr ''halt'']]\<rparr>\<rparr>))"
  by (simp add: ServerManager_halt_def ServerManager_ask_def ask_locked_def response_get_def
      query_put_def lock_acquire_def lock_release_def Let_def py_or_def
      worker_silent_def manager_srv_def)

lemma init_starts_server:
  "\<exists>m. ServerManager_init name' class' extras t err = (Inr (), m)
       \<and> server m = \<lparr>proc_name = name', proc_target = class', alive = True\<rparr>
       \<and> name m = name' \<and> server_class m = class'"
  by (simp add: ServerManager_init_def ServerManager_start_server_def)

lemma restart_after_halt:
  "ServerManager_halt env m = Some (Inr (), m') \<Longrightarrow>
   ServerManager_restart env m =
     Some (Inl (TypeError ''_start_server() missing 1 required positional argument: name''), m')
   \<and> \<not> alive (server m')"
  by (auto simp: ServerManager_restart_def ServerManager_start_server_def
      ServerManager_halt_def process_join_def split: if_splits option.splits sum.splits)

lemma restart_never_returns_normally:
  "ServerManager_restart env m \<noteq> Some (Inr (), m')"
  by (auto simp: ServerManager_restart_def ServerManager_start_server_def
      split: option.splits sum.splits)

text \<open>
  Claim C1. \<open>restart()\<close> is expected to halt the worker and then start a fresh process
  with the same server class under the same name, as the constructor does with
  \<open>self._start_server(name)\<close>. It calls \<open>self._start_server()\<close> without the name: on the
  manager \<open>srv\<close>, whose worker answers the halt query and exits, \<open>restart()\<close> halts
  the worker and then raises \<open>TypeError\<close>, and the manager is left with no live worker
  process. It does the same when the worker had already exited.
\<close>

theorem restart_raises_after_halt:
  "ServerManager_restart worker_echo manager_srv =
     Some (Inl (TypeError ''_start_server() missing 1 required positional argument: name''),
           manager_srv_exited)
   \<and> ServerManager_restart worker_echo manager_srv_exited =
     Some (Inl (TypeError ''_start_server() missing 1 required positional argument: name''),
           manager_srv_exited)
   \<and> \<not> alive (server manager_srv_exited)"
proof -
  have 1: "ServerManager_halt worker_echo manager_srv = Some (Inr (), manager_srv_exited)"
    by (simp add: ServerManager_halt_def process_join_def ask_characterisation py_or_def
        manager_srv_exited_def manager_srv_def worker_echo_def)
  have 2: "ServerManager_halt worker_echo manager_srv_exited = Some (Inr (), manager_srv_exited)"
    by (simp add: ServerManager_halt_def process_join_def
        manager_srv_exited_def manager_srv_def)
  from restart_after_halt [OF 1] restart_after_halt [OF 2] show ?thesis
    by simp
qed

section \<open>Writing to the queue\<close>

lemma take3_zero_padded6: "take 3 (zero_padded 6 n) = zero_padded 3 (n div 1000)"
proof -
  have "rev [0..<6] = [5, 4, 3, 2, 1, 0::nat]" "rev [0..<3] = [2, 1, 0::nat]"
    by (simp_all add: upt_rec)
  then show ?thesis
    by (simp add: zero_padded_def div_mult2_eq [symmetric])
qed

lemma length_zero_padded: "length (zero_padded k n) = k"
  by (simp add: zero_padded_def)

lemma timestr_is_hms_millis: "slice_to_minus 3 (strftime_HMSf dt) = hms_millis dt"
  by (simp add: slice_to_minus_def strftime_HMSf_def hms_millis_def length_zero_padded
      take3_zero_padded6)

lemma termstr_trimmed:
  "termstr_of (t, n, msg) = strip_one_newline (''['' @ t @ '' '' @ n @ ''] '' @ msg)"
  by (simp add: termstr_of_def strip_one_newline_def slice_to_minus_def butlast_conv_take
      Let_def)

lemma write_try_empty: "SQWriter_write_try rd n dt ts [] w = (Inr (), w)"
  by (simp add: SQWriter_write_try_def)

lemma write_try_closed:
  "msg \<noteq> [] \<Longrightarrow> closed (queue (sq w)) \<Longrightarrow>
   SQWriter_write_try rd n dt ts msg w = (Inl (ValueError ''Queue is closed''), w)"
  by (simp add: SQWriter_write_try_def q_put_def)

lemma write_try_fresh:
  "msg \<noteq> [] \<Longrightarrow> \<not> closed (queue (sq w)) \<Longrightarrow>
   \<not> (3 < rd (ts - last_read_ts (sq w)) \<and> msg \<noteq> [newline]) \<Longrightarrow>
   SQWriter_write_try rd n dt ts msg w =
     (Inr (), w\<lparr>sq := (sq w)\<lparr>queue := (queue (sq w))\<lparr>items :=
                  items (queue (sq w)) @ [(hms_millis dt, n, msg)]\<rparr>\<rparr>\<rparr>)"
  by (auto simp: SQWriter_write_try_def q_put_def Let_def MIN_READ_TIME_def
      timestr_is_hms_millis)

lemma write_try_stale:
  assumes "msg \<noteq> []" and "\<not> closed (queue (sq w))"
    and "3 < rd (ts - last_read_ts (sq w))" and "msg \<noteq> [newline]"
  shows "SQWriter_write_try rd n dt ts msg w =
     (case print_terminal (strip_one_newline (''['' @ hms_millis dt @ '' '' @ n @ ''] '' @ msg))
             (dunder_terminal w) of
        Inl e \<Rightarrow>
          if is_ValueError e
          then (Inr (), w\<lparr>sq := (sq w)\<lparr>queue := (queue (sq w))\<lparr>items :=
                  items (queue (sq w)) @ [(hms_millis dt, n, msg)]\<rparr>\<rparr>\<rparr>)
          else (Inl e, w\<lparr>sq := (sq w)\<lparr>queue := (queue (sq w))\<lparr>items :=
                  items (queue (sq w)) @ [(hms_millis dt, n, msg)]\<rparr>\<rparr>\<rparr>)
      | Inr t' \<Rightarrow>
          (Inr (), w\<lparr>sq := (sq w)\<lparr>queue := (queue (sq w))\<lparr>items :=
                  items (queue (sq w)) @ [(hms_millis dt, n, msg)]\<rparr>\<rparr>,
                    dunder_terminal := t'\<rparr>))"
  using assms
  by (simp add: SQWriter_write_try_def q_put_def Let_def MIN_READ_TIME_def
      timestr_is_hms_millis termstr_trimmed split: sum.splits)

text \<open>
  Claim C5. \<open>write('')\<close> changes nothing: no message is enqueued and nothing is printed.
  For a text that is not empty, on a queue that is open, one message is appended to the
  queue: the time \<open>HH:MM:SS.mmm\<close> of the clock, the stream name of the writer, and the
  text. Let \<open>queue_age\<close> be \<open>time.time()\<close> minus \<open>last_read_ts\<close> as the code computes it,
  in double arithmetic. If \<open>queue_age\<close> does not exceed 3 seconds, or the text is the bare
  newline, that is all. If \<open>queue_age\<close> exceeds 3 seconds and the text is not the bare
  newline, the line \<open>[<time> <stream_name>] <text>\<close>, without one trailing newline, is
  also printed on the terminal behind \<open>sys.__stdout__\<close>, which adds its own newline.
  The redirected handles \<open>sys.stdout\<close> and \<open>sys.stderr\<close> stay in place.
\<close>

theorem write_enqueues_and_echoes:
  "SQWriter_write to_double stream_name now_dt now_ts [] w = (Inr (), w)
   \<and> (msg \<noteq> [] \<and> \<not> closed (queue (sq w))
        \<and> \<not> (3 < to_double (now_ts - last_read_ts (sq w)) \<and> msg \<noteq> [newline]) \<longrightarrow>
        SQWriter_write to_double stream_name now_dt now_ts msg w =
          (Inr (), w\<lparr>sq := (sq w)\<lparr>queue := (queue (sq w))\<lparr>items :=
                       items (queue (sq w)) @ [(hms_millis now_dt, stream_name, msg)]\<rparr>\<rparr>\<rparr>))
   \<and> (msg \<noteq> [] \<and> \<not> closed (queue (sq w))
        \<and> 3 < to_double (now_ts - last_read_ts (sq w)) \<and> msg \<noteq> [newline]
        \<and> term_fault (dunder_terminal w) = None \<longrightarrow>
        SQWriter_write to_double stream_name now_dt now_ts msg w =
          (Inr (), w\<lparr>sq := (sq w)\<lparr>queue := (queue (sq w))\<lparr>items :=
                       items (queue (sq w)) @ [(hms_millis now_dt, stream_name, msg)]\<rparr>\<rparr>,
                     dunder_terminal := (dunder_terminal w)\<lparr>term_text :=
                       term_text (dunder_terminal w)
                         @ strip_one_newline (''['' @ hms_millis now_dt @ '' '' @ stream_name
                                                @ ''] '' @ msg)
                         @ [newline]\<rparr>\<rparr>))"
proof (intro conjI impI)
  show "SQWriter_write to_double stream_name now_dt now_ts [] w = (Inr (), w)"
    by (simp add: SQWriter_write_def write_try_empty)
next
  assume "msg \<noteq> [] \<and> \<not> closed (queue (sq w))
        \<and> \<not> (3 < to_double (now_ts - last_read_ts (sq w)) \<and> msg \<noteq> [newline])"
  then have "SQWriter_write_try to_double stream_name now_dt now_ts msg w =
     (Inr (), w\<lparr>sq := (sq w)\<lparr>queue := (queue (sq w))\<lparr>items :=
                  items (queue (sq w)) @ [(hms_millis now_dt, stream_name, msg)]\<rparr>\<rparr>\<rparr>)"
    by (intro write_try_fresh) simp_all
  then show "SQWriter_write to_double stream_name now_dt now_ts msg w =
          (Inr (), w\<lparr>sq := (sq w)\<lparr>queue := (queue (sq w))\<lparr>items :=
                       items (queue (sq w)) @ [(hms_millis now_dt, stream_name, msg)]\<rparr>\<rparr>\<rparr>)"
    by (simp add: SQWriter_write_def)
next
  assume a: "msg \<noteq> [] \<and> \<not> closed (queue (sq w))
        \<and> 3 < to_double (now_ts - last_read_ts (sq w)) \<and> msg \<noteq> [newline]
        \<and> term_fault (dunder_terminal w) = None"
  then have "SQWriter_write_try to_double stream_name now_dt now_ts msg w =
     (case print_terminal
             (strip_one_newline (''['' @ hms_millis now_dt @ '' '' @ stream_name @ ''] '' @ msg))
             (dunder_terminal w) of
        Inl e \<Rightarrow>
          if is_ValueError e
          then (Inr (), w\<lparr>sq := (sq w)\<lparr>queue := (queue (sq w))\<lparr>items :=
                  items (queue (sq w)) @ [(hms_millis now_dt, stream_name, msg)]\<rparr>\<rparr>\<rparr>)
          else (Inl e, w\<lparr>sq := (sq w)\<lparr>queue := (queue (sq w))\<lparr>items :=
                  items (queue (sq w)) @ [(hms_millis now_dt, stream_name, msg)]\<rparr>\<rparr>\<rparr>)
      | Inr t' \<Rightarrow>
          (Inr (), w\<lparr>sq := (sq w)\<lparr>queue := (queue (sq w))\<lparr>items :=
                  items (queue (sq w)) @ [(hms_millis now_dt, stream_name, msg)]\<rparr>\<rparr>,
                    dunder_terminal := t'\<rparr>))"
    by (intro write_try_stale) simp_all
  with a show "SQWriter_write to_double stream_name now_dt now_ts msg w =
          (Inr (), w\<lparr>sq := (sq w)\<lparr>queue := (queue (sq w))\<lparr>items :=
                       items (queue (sq w)) @ [(hms_millis now_dt, stream_name, msg)]\<rparr>\<rparr>,
                     dunder_terminal := (dunder_terminal w)\<lparr>term_text :=
                       term_text (dunder_terminal w)
                         @ strip_one_newline (''['' @ hms_millis now_dt @ '' '' @ stream_name
                                                @ ''] '' @ msg)
                         @ [newline]\<rparr>\<rparr>)"
    by (simp add: SQWriter_write_def print_terminal_def)
qed

lemma hms_millis_0905: "hms_millis clock_0905 = ''09:05:07.123''"
proof -
  have "rev [0..<2] = [1, 0::nat]" "rev [0..<3] = [2, 1, 0::nat]"
    by (simp_all add: upt_rec)
  then show ?thesis
    by (simp add: hms_millis_def clock_0905_def zero_padded_def digit_def)
qed

theorem write_enqueues_and_echoes_witness:
  "SQWriter_write id ''W1'' clock_0905 14 [] interp_connected = (Inr (), interp_connected)
   \<and> SQWriter_write id ''W1'' clock_0905 12 (''hello'' @ [newline]) interp_connected =
       (Inr (), interp_connected\<lparr>sq := (sq interp_connected)\<lparr>queue :=
          \<lparr>items = [(''09:05:07.123'', ''W1'', ''hello'' @ [newline])], closed = False\<rparr>\<rparr>\<rparr>)
   \<and> SQWriter_write id ''W1'' clock_0905 14 [newline] interp_connected =
       (Inr (), interp_connected\<lparr>sq := (sq interp_connected)\<lparr>queue :=
          \<lparr>items = [(''09:05:07.123'', ''W1'', [newline])], closed = False\<rparr>\<rparr>\<rparr>)
   \<and> SQWriter_write id ''W1'' clock_0905 14 (''hello'' @ [newline]) interp_connected =
       (Inr (), interp_connected\<lparr>sq := (sq interp_connected)\<lparr>queue :=
          \<lparr>items = [(''09:05:07.123'', ''W1'', ''hello'' @ [newline])], closed = False\<rparr>\<rparr>,
          dunder_terminal := \<lparr>term_text = ''[09:05:07.123 W1] hello'' @ [newline],
                                term_fault = None\<rparr>\<rparr>)
   \<and> 3 < double_3_1 - last_read_ts (sq interp_read_at_0_1)
   \<and> nearest_double_2_4 (double_3_1 - last_read_ts (sq interp_read_at_0_1)) = 3
   \<and> SQWriter_write nearest_double_2_4 ''W1'' clock_0905 double_3_1 ''hello''
         interp_read_at_0_1 =
       (Inr (), interp_read_at_0_1\<lparr>sq := (sq interp_read_at_0_1)\<lparr>queue :=
          \<lparr>items = [(''09:05:07.123'', ''W1'', ''hello'')], closed = False\<rparr>\<rparr>\<rparr>)"
proof -
  have n: "newline \<noteq> CHR ''o''" "[newline] \<noteq> ''hello'' @ [newline]"
    by (simp_all add: newline_def)
  have l: "last_read_ts (sq interp_read_at_0_1) = double_0_1"
    by (simp add: interp_read_at_0_1_def)
  have e: "3 < double_3_1 - double_0_1"
    by (simp add: double_3_1_def double_0_1_def)
  have a: "(double_3_1 - double_0_1) * 2 ^ 51 = 6755399441055744 + 3 / 16"
    by (simp add: double_3_1_def double_0_1_def)
  have b: "round (6755399441055744 + 3 / 16 :: rat) = 6755399441055744"
    by (rule round_unique) simp_all
  have r: "nearest_double_2_4 (double_3_1 - double_0_1) = 3"
    unfolding nearest_double_2_4_def a b by simp
  have 5: "SQWriter_write nearest_double_2_4 ''W1'' clock_0905 double_3_1 ''hello''
         interp_read_at_0_1 =
       (Inr (), interp_read_at_0_1\<lparr>sq := (sq interp_read_at_0_1)\<lparr>queue :=
          \<lparr>items = [(''09:05:07.123'', ''W1'', ''hello'')], closed = False\<rparr>\<rparr>\<rparr>)"
    using write_enqueues_and_echoes [of nearest_double_2_4 "''W1''" clock_0905 double_3_1
        interp_read_at_0_1 "''hello''", THEN conjunct2, THEN conjunct1] r
    by (simp add: interp_read_at_0_1_def interp_connected_def interp_idle_def sq_idle_def
        hms_millis_0905)
  have s: "strip_one_newline (''['' @ ''09:05:07.123'' @ '' '' @ ''W1'' @ ''] '' @ ''hello''
             @ [newline]) = ''[09:05:07.123 W1] hello''"
    by (simp add: strip_one_newline_def)
  have 1: "SQWriter_write id ''W1'' clock_0905 14 [] interp_connected = (Inr (), interp_connected)"
    using write_enqueues_and_echoes [of id "''W1''" clock_0905 14 interp_connected, THEN conjunct1]
    by simp
  have 2: "SQWriter_write id ''W1'' clock_0905 12 (''hello'' @ [newline]) interp_connected =
       (Inr (), interp_connected\<lparr>sq := (sq interp_connected)\<lparr>queue :=
          \<lparr>items = [(''09:05:07.123'', ''W1'', ''hello'' @ [newline])], closed = False\<rparr>\<rparr>\<rparr>)"
    using write_enqueues_and_echoes [of id "''W1''" clock_0905 12 interp_connected
        "''hello'' @ [newline]", THEN conjunct2, THEN conjunct1]
    by (simp add: interp_connected_def interp_idle_def sq_idle_def hms_millis_0905)
  have 3: "SQWriter_write id ''W1'' clock_0905 14 [newline] interp_connected =
       (Inr (), interp_connected\<lparr>sq := (sq interp_connected)\<lparr>queue :=
          \<lparr>items = [(''09:05:07.123'', ''W1'', [newline])], closed = False\<rparr>\<rparr>\<rparr>)"
    using write_enqueues_and_echoes [of id "''W1''" clock_0905 14 interp_connected
        "[newline]", THEN conjunct2, THEN conjunct1]
    by (simp add: interp_connected_def interp_idle_def sq_idle_def hms_millis_0905)
  have 4: "SQWriter_write id ''W1'' clock_0905 14 (''hello'' @ [newline]) interp_connected =
       (Inr (), interp_connected\<lparr>sq := (sq interp_connected)\<lparr>queue :=
          \<lparr>items = [(''09:05:07.123'', ''W1'', ''hello'' @ [newline])], closed = False\<rparr>\<rparr>,
          dunder_terminal := \<lparr>term_text = ''[09:05:07.123 W1] hello'' @ [newline],
                                term_fault = None\<rparr>\<rparr>)"
    using write_enqueues_and_echoes [of id "''W1''" clock_0905 14 interp_connected
        "''hello'' @ [newline]", THEN conjunct2, THEN conjunct2] n s
    by (simp add: interp_connected_def interp_idle_def sq_idle_def hms_millis_0905)
  from 1 2 3 4 5 e r show ?thesis
    by (simp add: l)
qed

lemma write_swallows_ValueError:
  assumes "msg \<noteq> []" and "\<not> closed (queue (sq w))"
    and "3 < rd (ts - last_read_ts (sq w))" and "msg \<noteq> [newline]"
    and "term_fault (dunder_terminal w) = Some (ValueError x)"
  shows "SQWriter_write rd n dt ts msg w =
     (Inr (), w\<lparr>sq := (sq w)\<lparr>queue := (queue (sq w))\<lparr>items :=
                  items (queue (sq w)) @ [(hms_millis dt, n, msg)]\<rparr>\<rparr>\<rparr>)"
  using assms(5)
  by (simp add: SQWriter_write_def write_try_stale [where rd = rd, OF assms(1-4)] print_terminal_def)

section \<open>A write that fails\<close>

lemma write_try_keeps_streams:
  "SQWriter_write_try rd n dt ts msg w = (r, w') \<Longrightarrow>
   sys_stdout w' = sys_stdout w \<and> sys_stderr w' = sys_stderr w
   \<and> sys_dunder_stdout w' = sys_dunder_stdout w \<and> sys_dunder_stderr w' = sys_dunder_stderr w"
  by (auto simp: SQWriter_write_try_def Let_def split: if_splits sum.splits)

lemma write_fails_iff:
  "(\<exists>e w'. SQWriter_write rd n dt ts msg w = (Inl e, w')) \<longleftrightarrow>
   msg \<noteq> [] \<and> (closed (queue (sq w))
     \<or> (3 < rd (ts - last_read_ts (sq w)) \<and> msg \<noteq> [newline]
         \<and> (\<exists>e. term_fault (dunder_terminal w) = Some e \<and> \<not> is_ValueError e)))"
  by (auto simp: SQWriter_write_def SQWriter_write_try_def q_put_def print_terminal_def
      Let_def MIN_READ_TIME_def split: if_splits sum.splits option.splits prod.splits)

text \<open>
  Claim C8. When \<open>write\<close> raises, because the \<open>put\<close> on the queue or the printing of the
  line failed, \<open>sys.stdout\<close> and \<open>sys.stderr\<close> are \<open>sys.__stdout__\<close> and
  \<open>sys.__stderr__\<close>, the original streams of the process, in the state in which the
  error reaches the caller, and the error is the one that was raised inside.
\<close>

theorem write_failure_restores_streams:
  assumes "SQWriter_write to_double stream_name now_dt now_ts msg w = (Inl e, w')"
  shows "sys_stdout w' = sys_dunder_stdout w \<and> sys_stderr w' = sys_dunder_stderr w
         \<and> sys_dunder_stdout w' = sys_dunder_stdout w
         \<and> sys_dunder_stderr w' = sys_dunder_stderr w
         \<and> (\<exists>w1. SQWriter_write_try to_double stream_name now_dt now_ts msg w = (Inl e, w1))"
proof -
  obtain r w1 where t: "SQWriter_write_try to_double stream_name now_dt now_ts msg w = (r, w1)"
    by (cases "SQWriter_write_try to_double stream_name now_dt now_ts msg w")
  with assms have r: "r = Inl e"
    and w': "w' = w1\<lparr>sys_stdout := sys_dunder_stdout w1, sys_stderr := sys_dunder_stderr w1\<rparr>"
    by (auto simp: SQWriter_write_def split: sum.splits)
  from write_try_keeps_streams [OF t] r t w' show ?thesis
    by simp
qed

theorem write_failure_restores_streams_witness:
  "SQWriter_write id ''W1'' clock_0905 14 ''hello'' interp_connected_closed =
     (Inl (ValueError ''Queue is closed''),
      interp_connected_closed\<lparr>sys_stdout := FileHandle ''stdout'',
                               sys_stderr := FileHandle ''stderr''\<rparr>)
   \<and> sys_stdout interp_connected_closed = SQWriter ''W1''
   \<and> sys_stderr interp_connected_closed = SQWriter ''W1 ERR''
   \<and> sys_dunder_stdout interp_connected_closed = FileHandle ''stdout''
   \<and> sys_dunder_stderr interp_connected_closed = FileHandle ''stderr''
   \<and> SQWriter_write id ''W1'' clock_0905 14 ''hello'' interp_connected_broken =
     (Inl (OSError ''Broken pipe''),
      interp_connected_broken\<lparr>sq := (sq interp_connected_broken)\<lparr>queue :=
          \<lparr>items = [(''09:05:07.123'', ''W1'', ''hello'')], closed = False\<rparr>\<rparr>,
        sys_stdout := FileHandle ''stdout'', sys_stderr := FileHandle ''stderr''\<rparr>)"
proof -
  have f: "SQWriter_write id ''W1'' clock_0905 14 ''hello'' interp_connected_closed =
     (Inl (ValueError ''Queue is closed''),
      interp_connected_closed\<lparr>sys_stdout := FileHandle ''stdout'',
                               sys_stderr := FileHandle ''stderr''\<rparr>)"
    by (simp add: SQWriter_write_def write_try_closed interp_connected_closed_def
        interp_connected_def interp_idle_def)
  have n: "''hello'' \<noteq> [newline]"
    by simp
  have s: "\<not> closed (queue (sq interp_connected_broken))"
    "3 < id (14 - last_read_ts (sq interp_connected_broken))"
    by (simp_all add: interp_connected_broken_def interp_connected_def interp_idle_def
        sq_idle_def)
  have g: "SQWriter_write id ''W1'' clock_0905 14 ''hello'' interp_connected_broken =
     (Inl (OSError ''Broken pipe''),
      interp_connected_broken\<lparr>sq := (sq interp_connected_broken)\<lparr>queue :=
          \<lparr>items = [(''09:05:07.123'', ''W1'', ''hello'')], closed = False\<rparr>\<rparr>,
        sys_stdout := FileHandle ''stdout'', sys_stderr := FileHandle ''stderr''\<rparr>)"
    by (simp add: SQWriter_write_def write_try_stale [where rd = id, OF _ s n] print_terminal_def
        hms_millis_0905)
      (simp add: interp_connected_broken_def interp_connected_def interp_idle_def sq_idle_def
        hms_millis_0905)
  from write_failure_restores_streams [OF f] write_failure_restores_streams [OF g] f g
  show ?thesis
    by (simp add: interp_connected_closed_def interp_connected_def interp_idle_def)
qed

section \<open>Draining the queue\<close>

lemma str_replace_char:
  "str_replace [c] new s = concat (map (\<lambda>x. if x = c then new else [x]) s)"
proof (induction s)
  case Nil
  show ?case
    by (simp add: str_replace.simps [of "[c]" new "[]"])
next
  case (Cons x xs)
  then show ?case
    by (simp add: str_replace.simps [of "[c]" new "x # xs"])
qed

lemma with_line_heads_concat:
  "body \<noteq> [] \<Longrightarrow>
   with_line_heads h body
     = concat (map (\<lambda>x. if x = newline then newline # h else [x]) (butlast body)) @ [last body]"
  by (induction h body rule: with_line_heads.induct) simp_all

lemma get_body_renders:
  assumes "snd (snd m) \<noteq> []"
  shows "get_body m out s =
     (Inr (out @ render_message (on_new_line s) (last_stream s) m),
      s\<lparr>on_new_line := (last (snd (snd m)) = newline), last_stream := Some (fst (snd m))\<rparr>)"
proof -
  obtain t n body where m: "m = (t, n, body)"
    by (cases m)
  with assms have "body \<noteq> []"
    by simp
  then show ?thesis
    by (auto simp: m get_body_def render_message_def Let_def str_replace_char
        with_line_heads_concat)
qed

lemma get_loop_drains:
  assumes "\<not> closed (queue s)" and "texts_nonempty (items (queue s))"
    and "items (queue s) = ms"
  shows "get_loop out s =
     (Inr (out @ drained_text (on_new_line s) (last_stream s) ms),
      s\<lparr>queue := (queue s)\<lparr>items := []\<rparr>,
        on_new_line := fst (cursor_after (on_new_line s, last_stream s) ms),
        last_stream := snd (cursor_after (on_new_line s, last_stream s) ms)\<rparr>)"
  using assms
proof (induction ms arbitrary: out s)
  case Nil
  then have "get_loop out s = (Inr out, s)"
    by (simp add: get_loop.simps [of out s] q_empty_def)
  moreover have "s\<lparr>queue := (queue s)\<lparr>items := []\<rparr>, on_new_line := on_new_line s,
                   last_stream := last_stream s\<rparr> = s"
    using Nil by simp
  ultimately show ?case
    by simp
next
  case (Cons m ms)
  let ?s1 = "s\<lparr>queue := (queue s)\<lparr>items := ms\<rparr>\<rparr>"
  let ?s2 = "?s1\<lparr>on_new_line := (last (snd (snd m)) = newline),
                  last_stream := Some (fst (snd m))\<rparr>"
  from Cons.prems have ne: "snd (snd m) \<noteq> []" and rest: "texts_nonempty ms"
    by (simp_all add: texts_nonempty_def)
  have step: "get_loop out s = get_loop (out @ render_message (on_new_line s) (last_stream s) m) ?s2"
    using Cons.prems get_body_renders [OF ne, of out ?s1]
    by (simp add: get_loop.simps [of out s] q_empty_def)
  have "get_loop (out @ render_message (on_new_line s) (last_stream s) m) ?s2 =
     (Inr ((out @ render_message (on_new_line s) (last_stream s) m)
             @ drained_text (on_new_line ?s2) (last_stream ?s2) ms),
      ?s2\<lparr>queue := (queue ?s2)\<lparr>items := []\<rparr>,
        on_new_line := fst (cursor_after (on_new_line ?s2, last_stream ?s2) ms),
        last_stream := snd (cursor_after (on_new_line ?s2, last_stream ?s2) ms)\<rparr>)"
    using Cons.prems rest by (intro Cons.IH) simp_all
  with step show ?case
    by simp
qed

lemma write_keeps_texts_nonempty:
  assumes "texts_nonempty (items (queue (sq w)))"
    and "SQWriter_write rd n dt ts msg w = (r, w')"
  shows "texts_nonempty (items (queue (sq w')))"
  using assms
  by (auto simp: SQWriter_write_def SQWriter_write_try_def q_put_def Let_def
      texts_nonempty_def split: if_splits sum.splits)

text \<open>
  Claim C6. On an open queue whose messages all have a text, as the messages of
  \<open>_SQWriter.write\<close> have, \<open>StreamQueue.get()\<close> takes every message from the queue and
  returns the concatenation of the messages rendered by the coalescing rule: for each
  message, the line-head \<open>[<time> <stream_name>]\<close> and a space if the previous output,
  of this call or of an earlier one, ended at a line boundary; nothing if it ended
  mid-line and the message is of the stream that wrote last; a newline and the line-head
  if it ended mid-line and the message is of another stream; then the text, with the
  line-head repeated after every newline except one at the very end. Afterwards
  \<open>last_read_ts\<close> is the time of the call, and it is so too when the queue was empty,
  where the empty string is returned and nothing else changes.
\<close>

theorem get_coalesces_lines:
  assumes "\<not> closed (queue s)" and "texts_nonempty (items (queue s))"
  shows "StreamQueue_get now s =
           (Inr (drained_text (on_new_line s) (last_stream s) (items (queue s))),
            s\<lparr>queue := (queue s)\<lparr>items := []\<rparr>,
              on_new_line := fst (cursor_after (on_new_line s, last_stream s) (items (queue s))),
              last_stream := snd (cursor_after (on_new_line s, last_stream s) (items (queue s))),
              last_read_ts := now\<rparr>)
         \<and> (items (queue s) = [] \<longrightarrow>
              StreamQueue_get now s = (Inr [], s\<lparr>last_read_ts := now\<rparr>))"
proof
  from get_loop_drains [OF assms refl, of "[]"]
  show "StreamQueue_get now s =
           (Inr (drained_text (on_new_line s) (last_stream s) (items (queue s))),
            s\<lparr>queue := (queue s)\<lparr>items := []\<rparr>,
              on_new_line := fst (cursor_after (on_new_line s, last_stream s) (items (queue s))),
              last_stream := snd (cursor_after (on_new_line s, last_stream s) (items (queue s))),
              last_read_ts := now\<rparr>)"
    by (simp add: StreamQueue_get_def)
next
  show "items (queue s) = [] \<longrightarrow> StreamQueue_get now s = (Inr [], s\<lparr>last_read_ts := now\<rparr>)"
  proof
    assume e: "items (queue s) = []"
    with assms have "get_loop [] s = (Inr [], s)"
      by (simp add: get_loop.simps [of "[]" s] q_empty_def)
    then show "StreamQueue_get now s = (Inr [], s\<lparr>last_read_ts := now\<rparr>)"
      by (simp add: StreamQueue_get_def)
  qed
qed

theorem get_coalesces_lines_witness:
  "StreamQueue_get 20 sq_hello_world =
     (Inr (''[t1 W1] hello'' @ [newline] @ ''[t2 W1 ERR] world''),
      sq_idle\<lparr>on_new_line := False, last_stream := Some ''W1 ERR'', last_read_ts := 20\<rparr>)
   \<and> StreamQueue_get 20 sq_interleaved =
     (Inr (''[t1 A] abc'' @ [newline] @ ''[t2 A] d'' @ [newline] @ ''[t3 B] x'' @ [newline]
             @ ''[t4 A] y'' @ [newline]),
      sq_idle\<lparr>on_new_line := True, last_stream := Some ''A'', last_read_ts := 20\<rparr>)
   \<and> StreamQueue_get 20 sq_idle = (Inr [], sq_idle\<lparr>last_read_ts := 20\<rparr>)"
proof -
  have o: "\<not> closed (queue sq_hello_world)" "\<not> closed (queue sq_interleaved)"
    "\<not> closed (queue sq_idle)"
    by (simp_all add: sq_hello_world_def sq_interleaved_def sq_idle_def)
  have t: "texts_nonempty (items (queue sq_hello_world))"
    "texts_nonempty (items (queue sq_interleaved))" "texts_nonempty (items (queue sq_idle))"
    by (simp_all add: sq_hello_world_def sq_interleaved_def sq_idle_def texts_nonempty_def)
  have 1: "StreamQueue_get 20 sq_hello_world =
     (Inr (''[t1 W1] hello'' @ [newline] @ ''[t2 W1 ERR] world''),
      sq_idle\<lparr>on_new_line := False, last_stream := Some ''W1 ERR'', last_read_ts := 20\<rparr>)"
    using get_coalesces_lines [OF o(1) t(1), of 20, THEN conjunct1]
    by (simp add: sq_hello_world_def sq_idle_def render_message_def line_head_of_def
        newline_def)
  have 2: "StreamQueue_get 20 sq_interleaved =
     (Inr (''[t1 A] abc'' @ [newline] @ ''[t2 A] d'' @ [newline] @ ''[t3 B] x'' @ [newline]
             @ ''[t4 A] y'' @ [newline]),
      sq_idle\<lparr>on_new_line := True, last_stream := Some ''A'', last_read_ts := 20\<rparr>)"
    using get_coalesces_lines [OF o(2) t(2), of 20, THEN conjunct1]
    by (simp add: sq_interleaved_def sq_idle_def render_message_def line_head_of_def
        newline_def)
  have 3: "StreamQueue_get 20 sq_idle = (Inr [], sq_idle\<lparr>last_read_ts := 20\<rparr>)"
    using get_coalesces_lines [OF o(3) t(3), of 20, THEN conjunct2]
    by (simp add: sq_idle_def)
  from 1 2 3 show ?thesis
    by blast
qed

end
